theory Spec2Isabelle
  imports Main "HOL-Library.Word"
begin

section \<open>Integers and strings at the boundary\<close>

text \<open>
  A Go \<open>int\<close> is modelled as a mathematical integer. \<open>C.int(x)\<close> in \<open>morfeusz.go\<close> is a
  Go conversion to a 32-bit signed integer: it keeps the low 32 bits of \<open>x\<close>. Sizes of
  strings, arrays and lists are below \<open>2 ^ 31\<close> in every state the model covers, so the
  \<open>int\<close> length fields of the wire structs are exact.
\<close>

definition C_int :: "int \<Rightarrow> int" where
  "C_int x = sint (word_of_int x :: 32 word)"

text \<open>
  \<open>struct String\<close> of \<open>morfeusz-cgo.h\<close>: a pointer and a length. The pointer is \<open>None\<close>
  for \<open>NULL\<close> and \<open>Some b\<close> when it points to a character array holding \<open>b\<close>.
\<close>

record String =
  String_p :: "string option"
  String_n :: int

type_synonym Error = String

record TokenInfo =
  orth :: String
  lemma_str :: String
  startNode :: int
  endNode :: int
  tagID :: int
  nameID :: int
  labelsID :: int

record StringArray =
  strings :: "String list option"
  length_strings :: int

record TokenInfoArray =
  tokens :: "TokenInfo list option"
  length_tokens :: int
  error :: Error

text \<open>A C++ exception caught at the boundary; only \<open>what()\<close> is ever read.\<close>

datatype exception = Exception (what: string)

section \<open>The enumerations and the translation tables of morfeusz-cgo.cc\<close>

datatype morfeusz_Charset =
  morfeusz_UTF8 | morfeusz_ISO8859_2 | morfeusz_CP1250 | morfeusz_CP852

datatype morfeusz_TokenNumbering =
  morfeusz_SEPARATE_NUMBERING | morfeusz_CONTINUOUS_NUMBERING

datatype morfeusz_CaseHandling =
  morfeusz_CONDITIONALLY_CASE_SENSITIVE | morfeusz_STRICTLY_CASE_SENSITIVE
  | morfeusz_IGNORE_CASE

datatype morfeusz_WhitespaceHandling =
  morfeusz_SKIP_WHITESPACES | morfeusz_APPEND_WHITESPACES | morfeusz_KEEP_WHITESPACES

datatype morfeusz_MorfeuszUsage =
  morfeusz_BOTH_ANALYSE_AND_GENERATE | morfeusz_ANALYSE_ONLY | morfeusz_GENERATE_ONLY

definition translateCharset :: "morfeusz_Charset list" where
  "translateCharset =
     [morfeusz_UTF8, morfeusz_ISO8859_2, morfeusz_CP1250, morfeusz_CP852]"

definition translateTokenNumbering :: "morfeusz_TokenNumbering list" where
  "translateTokenNumbering =
     [morfeusz_SEPARATE_NUMBERING, morfeusz_CONTINUOUS_NUMBERING]"

definition translateCaseHandling :: "morfeusz_CaseHandling list" where
  "translateCaseHandling =
     [morfeusz_CONDITIONALLY_CASE_SENSITIVE, morfeusz_STRICTLY_CASE_SENSITIVE,
      morfeusz_IGNORE_CASE]"

definition translateWhitespaceHandling :: "morfeusz_WhitespaceHandling list" where
  "translateWhitespaceHandling =
     [morfeusz_SKIP_WHITESPACES, morfeusz_APPEND_WHITESPACES, morfeusz_KEEP_WHITESPACES]"

definition translateUsage :: "morfeusz_MorfeuszUsage list" where
  "translateUsage =
     [morfeusz_BOTH_ANALYSE_AND_GENERATE, morfeusz_ANALYSE_ONLY, morfeusz_GENERATE_ONLY]"

text \<open>
  The C enumerators are the ordinals \<open>0, 1, 2, \<dots>\<close>; the Go constants of \<open>morfeusz.go\<close>
  are defined as these C values. An enumerated value crossing the boundary is an integer.
\<close>

definition UTF8 :: int where "UTF8 = 0"
definition ISO8859_2 :: int where "ISO8859_2 = 1"
definition CP1250 :: int where "CP1250 = 2"
definition CP852 :: int where "CP852 = 3"

definition SeparateNumbering :: int where "SeparateNumbering = 0"
definition ContinuousNumbering :: int where "ContinuousNumbering = 1"

definition ConditionallyCaseSensitive :: int where "ConditionallyCaseSensitive = 0"
definition StrictlyCaseSensitive :: int where "StrictlyCaseSensitive = 1"
definition IgnoreCase :: int where "IgnoreCase = 2"

definition SkipWhitespaces :: int where "SkipWhitespaces = 0"
definition AppendWhitespaces :: int where "AppendWhitespaces = 1"
definition KeepWhitespaces :: int where "KeepWhitespaces = 2"

definition BothAnalyseAndGenerate :: int where "BothAnalyseAndGenerate = 0"
definition AnalyseOnly :: int where "AnalyseOnly = 1"
definition GenerateOnly :: int where "GenerateOnly = 2"

text \<open>
  \<open>table[i]\<close> on a C array has no bounds check. A read outside the array is undefined
  behaviour; the model gives it an outcome of its own, \<open>OutOfBoundsRead\<close>, which is
  neither a returned error nor a success.
\<close>

datatype 'a native = OutOfBoundsRead | Returns 'a

definition table_index :: "'a list \<Rightarrow> int \<Rightarrow> 'a native" where
  "table_index tbl i =
     (if 0 \<le> i \<and> i < int (length tbl) then Returns (tbl ! nat i) else OutOfBoundsRead)"

definition invalidId :: int where
  "invalidId = - 1"

definition emptyString :: String where
  "emptyString = \<lparr>String_p = None, String_n = 0\<rparr>"

definition noError :: Error where
  "noError = emptyString"

definition emptyStringArray :: StringArray where
  "emptyStringArray = \<lparr>strings = None, length_strings = 0\<rparr>"

definition emptyTokenInfo :: TokenInfo where
  "emptyTokenInfo =
     \<lparr>orth = emptyString, lemma_str = emptyString, startNode = 0, endNode = 0,
      tagID = 0, nameID = 0, labelsID = 0\<rparr>"

text \<open>\<open>reverseTranslate\<close>: the index of the first entry equal to the value, else \<open>invalidId\<close>.\<close>

fun reverseTranslate_from :: "int \<Rightarrow> 'a list \<Rightarrow> 'a \<Rightarrow> int" where
  "reverseTranslate_from i [] v = invalidId"
| "reverseTranslate_from i (x # xs) v =
     (if x = v then i else reverseTranslate_from (i + 1) xs v)"

definition reverseTranslate :: "'a list \<Rightarrow> 'a \<Rightarrow> int" where
  "reverseTranslate tbl v = reverseTranslate_from 0 tbl v"

text \<open>\<open>makeString\<close> copies into a fresh array, which is never \<open>NULL\<close>, also for length 0.\<close>

definition makeString :: "string \<Rightarrow> String" where
  "makeString s = \<lparr>String_p = Some s, String_n = int (length s)\<rparr>"

definition makeError :: "exception \<Rightarrow> Error" where
  "makeError e = makeString (what e)"

definition stdString :: "String \<Rightarrow> string" where
  "stdString s = (case String_p s of None \<Rightarrow> [] | Some b \<Rightarrow> take (nat (String_n s)) b)"

text \<open>
  A Go string that is passed to C is a data pointer and a length. The zero value of a
  string, \<open>NilData\<close>, has a nil data pointer and length 0. Every other string, \<open>Data b\<close>,
  has a non-nil data pointer to its bytes \<open>b\<close>; \<open>Data []\<close> is an empty string made by
  slicing. \<open>chars\<close> is the content, which is all that Go code itself can see.
\<close>

datatype go_string = NilData | Data string

fun chars :: "go_string \<Rightarrow> string" where
  "chars NilData = []"
| "chars (Data b) = b"

text \<open>
  \<open>makeStructString\<close> (the cgo preamble of \<open>morfeusz.go\<close>) passes \<open>_GoStringPtr(s)\<close> and
  \<open>_GoStringLen(s)\<close>.
\<close>

fun makeStructString :: "go_string \<Rightarrow> String" where
  "makeStructString NilData = \<lparr>String_p = None, String_n = 0\<rparr>"
| "makeStructString (Data b) = \<lparr>String_p = Some b, String_n = int (length b)\<rparr>"

definition goString :: "String \<Rightarrow> string" where
  "goString s = (case String_p s of None \<Rightarrow> [] | Some b \<Rightarrow> take (nat (String_n s)) b)"

definition goStringFree :: "String \<Rightarrow> string" where
  "goStringFree s = goString s"

text \<open>A Go \<open>error\<close>: \<open>None\<close> is nil, \<open>Some msg\<close> is \<open>errors.New(msg)\<close>.\<close>

type_synonym go_error = "string option"

definition newError :: "String \<Rightarrow> go_error" where
  "newError s = (if String_n s = 0 then None else Some (goStringFree s))"

section \<open>The native engine behind the boundary\<close>

text \<open>
  The native library is not part of the sources; the glue code only calls it. Its
  exceptions carry a message, as the spec says; the wording of the messages below is the
  model's own, and the claims rely on nothing but a message being non-empty.
\<close>

text \<open>Modelled from the spec: \<open>morfeusz::MorphInterpretation\<close>, the native record of one
  interpretation, declared in \<open>morfeusz2.h\<close>, which is not part of the sources. The fields
  are the ones \<open>makeTokenInfo\<close> reads.
\<close>

record MorphInterpretation =
  mi_startNode :: int
  mi_endNode :: int
  mi_orth :: string
  mi_lemma :: string
  mi_tagId :: int
  mi_nameId :: int
  mi_labelsId :: int

text \<open>Modelled from the spec: what the native engine has loaded (\<open>morfeusz2.h\<close> and the
  library are not part of the sources). It holds the three interning tables
  (position = id), the option strings accepted for \<open>aggl\<close> and \<open>praet\<close> with their initial
  values, and the generation algorithm as a black box that returns the inflected forms
  of a lemma or throws on a malformed one. The native setters of the four enumerated
  options validate their value too (the glue code catches what they throw); which
  values they accept is a parameter of the model.
\<close>

record dictionary =
  tagTable :: "string list"
  nameTable :: "string list"
  labelsTable :: "string list"
  agglOptions :: "string list"
  praetOptions :: "string list"
  defaultAggl :: string
  defaultPraet :: string
  acceptsCharset :: "morfeusz_Charset \<Rightarrow> bool"
  acceptsCaseHandling :: "morfeusz_CaseHandling \<Rightarrow> bool"
  acceptsTokenNumbering :: "morfeusz_TokenNumbering \<Rightarrow> bool"
  acceptsWhitespaceHandling :: "morfeusz_WhitespaceHandling \<Rightarrow> bool"
  generation :: "string \<Rightarrow> exception + MorphInterpretation list"

text \<open>Modelled from the spec: the external dictionary loader (a name and the search-path list
  give a loaded dictionary or not found), the default dictionary name and the default
  search paths of the installed native library.
\<close>

record installation =
  loader :: "string list \<Rightarrow> string \<Rightarrow> dictionary option"
  defaultDictName :: string
  defaultSearchPaths :: "string list"

text \<open>Modelled from the spec: the state of a native \<open>morfeusz::Morfeusz\<close> instance (the class
  is declared in \<open>morfeusz2.h\<close>, not part of the sources): its usage, loaded dictionary,
  the four enumerated options, the \<open>aggl\<close> and \<open>praet\<close> modes and the mutable search-path
  list. The selectors carry the names of the native getters the glue code calls.
\<close>

record Morfeusz =
  usage :: morfeusz_MorfeuszUsage
  dict :: dictionary
  getCharset :: morfeusz_Charset
  getCaseHandling :: morfeusz_CaseHandling
  getTokenNumbering :: morfeusz_TokenNumbering
  getWhitespaceHandling :: morfeusz_WhitespaceHandling
  getAggl :: string
  getPraet :: string
  dictionarySearchPaths :: "string list"

text \<open>Modelled from the spec: \<open>Morfeusz::createInstance(dictName, usage)\<close> of the native
  library. It throws when the loader does not find the dictionary. A fresh instance has
  the default options named in the comments of \<open>morfeusz.go\<close>.
\<close>

definition native_createInstance ::
  "installation \<Rightarrow> string \<Rightarrow> morfeusz_MorfeuszUsage \<Rightarrow> exception + Morfeusz" where
  "native_createInstance inst dictName u =
     (case loader inst (defaultSearchPaths inst) dictName of
        None \<Rightarrow> Inl (Exception (''Failed to load dictionary: '' @ dictName))
      | Some d \<Rightarrow>
          Inr \<lparr>usage = u, dict = d, getCharset = morfeusz_UTF8,
               getCaseHandling = morfeusz_CONDITIONALLY_CASE_SENSITIVE,
               getTokenNumbering = morfeusz_SEPARATE_NUMBERING,
               getWhitespaceHandling = morfeusz_SKIP_WHITESPACES,
               getAggl = defaultAggl d, getPraet = defaultPraet d,
               dictionarySearchPaths = defaultSearchPaths inst\<rparr>)"

text \<open>Modelled from the spec: \<open>Morfeusz::createInstance(usage)\<close> of the native library, which
  loads the default dictionary.
\<close>

definition native_createInstance_default ::
  "installation \<Rightarrow> morfeusz_MorfeuszUsage \<Rightarrow> exception + Morfeusz" where
  "native_createInstance_default inst u =
     native_createInstance inst (defaultDictName inst) u"

text \<open>Modelled from the spec: \<open>Morfeusz::setAggl\<close> of the native library. The value is
  validated against the loaded dictionary; on rejection it throws an exception that
  carries a message and the setting is retained.
\<close>

definition native_setAggl :: "Morfeusz \<Rightarrow> string \<Rightarrow> exception + Morfeusz" where
  "native_setAggl m v =
     (if v \<in> set (agglOptions (dict m)) then Inr (m\<lparr>getAggl := v\<rparr>)
      else Inl (Exception (''Invalid aggl option: '' @ v)))"

text \<open>Modelled from the spec: \<open>Morfeusz::setPraet\<close> of the native library, validated like
  \<open>setAggl\<close>.
\<close>

definition native_setPraet :: "Morfeusz \<Rightarrow> string \<Rightarrow> exception + Morfeusz" where
  "native_setPraet m v =
     (if v \<in> set (praetOptions (dict m)) then Inr (m\<lparr>getPraet := v\<rparr>)
      else Inl (Exception (''Invalid praet option: '' @ v)))"


text \<open>Modelled from the spec: \<open>Morfeusz::setCharset\<close> of the native library; it takes a value
  of the native enumeration, validates it and stores it. On rejection it throws an
  exception that carries a message and the setting is retained.
\<close>

definition native_setCharset ::
  "Morfeusz \<Rightarrow> morfeusz_Charset \<Rightarrow> exception + Morfeusz" where
  "native_setCharset m v =
     (if acceptsCharset (dict m) v then Inr (m\<lparr>getCharset := v\<rparr>)
      else Inl (Exception ''Invalid charset''))"

text \<open>Modelled from the spec: \<open>Morfeusz::setCaseHandling\<close> of the native library; it
  validates and stores the value of the native enumeration, and throws on rejection.
\<close>

definition native_setCaseHandling ::
  "Morfeusz \<Rightarrow> morfeusz_CaseHandling \<Rightarrow> exception + Morfeusz" where
  "native_setCaseHandling m v =
     (if acceptsCaseHandling (dict m) v then Inr (m\<lparr>getCaseHandling := v\<rparr>)
      else Inl (Exception ''Invalid case handling''))"

text \<open>Modelled from the spec: \<open>Morfeusz::setTokenNumbering\<close> of the native library; it
  validates and stores the value of the native enumeration, and throws on rejection.
\<close>

definition native_setTokenNumbering ::
  "Morfeusz \<Rightarrow> morfeusz_TokenNumbering \<Rightarrow> exception + Morfeusz" where
  "native_setTokenNumbering m v =
     (if acceptsTokenNumbering (dict m) v then Inr (m\<lparr>getTokenNumbering := v\<rparr>)
      else Inl (Exception ''Invalid token numbering''))"

text \<open>Modelled from the spec: \<open>Morfeusz::setWhitespaceHandling\<close> of the native library; it
  validates and stores the value of the native enumeration, and throws on rejection.
\<close>

definition native_setWhitespaceHandling ::
  "Morfeusz \<Rightarrow> morfeusz_WhitespaceHandling \<Rightarrow> exception + Morfeusz" where
  "native_setWhitespaceHandling m v =
     (if acceptsWhitespaceHandling (dict m) v then Inr (m\<lparr>getWhitespaceHandling := v\<rparr>)
      else Inl (Exception ''Invalid whitespace handling''))"

section \<open>Creation and configuration: morfeusz-cgo.cc\<close>

text \<open>
  A C function that takes the handle \<open>Morf m\<close> and may change the instance returns the
  instance as well. \<open>try { f; return noError; } catch (e) { return makeError(e); }\<close>
  becomes \<open>caught\<close>: after an exception the instance is the one before the call.
\<close>

definition caught :: "Morfeusz \<Rightarrow> exception + Morfeusz \<Rightarrow> Error \<times> Morfeusz" where
  "caught m r = (case r of Inr m' \<Rightarrow> (noError, m') | Inl e \<Rightarrow> (makeError e, m))"

definition createInstance :: "installation \<Rightarrow> String \<Rightarrow> int \<Rightarrow> Morfeusz option native" where
  "createInstance inst dictName u =
     (case table_index translateUsage u of
        OutOfBoundsRead \<Rightarrow> OutOfBoundsRead
      | Returns morfeuszUsage \<Rightarrow>
          Returns
            (case (if String_p dictName = None
                   then native_createInstance_default inst morfeuszUsage
                   else native_createInstance inst (stdString dictName) morfeuszUsage) of
               Inl e \<Rightarrow> None
             | Inr m \<Rightarrow> Some m))"

definition setAggl :: "Morfeusz \<Rightarrow> String \<Rightarrow> Error \<times> Morfeusz" where
  "setAggl m a = caught m (native_setAggl m (stdString a))"

definition setPraet :: "Morfeusz \<Rightarrow> String \<Rightarrow> Error \<times> Morfeusz" where
  "setPraet m a = caught m (native_setPraet m (stdString a))"


definition setCharset :: "Morfeusz \<Rightarrow> int \<Rightarrow> (Error \<times> Morfeusz) native" where
  "setCharset m encoding =
     (case table_index translateCharset encoding of
        OutOfBoundsRead \<Rightarrow> OutOfBoundsRead
      | Returns v \<Rightarrow> Returns (caught m (native_setCharset m v)))"

definition setCaseHandling :: "Morfeusz \<Rightarrow> int \<Rightarrow> (Error \<times> Morfeusz) native" where
  "setCaseHandling m caseHandling =
     (case table_index translateCaseHandling caseHandling of
        OutOfBoundsRead \<Rightarrow> OutOfBoundsRead
      | Returns v \<Rightarrow> Returns (caught m (native_setCaseHandling m v)))"

definition setTokenNumbering :: "Morfeusz \<Rightarrow> int \<Rightarrow> (Error \<times> Morfeusz) native" where
  "setTokenNumbering m numbering =
     (case table_index translateTokenNumbering numbering of
        OutOfBoundsRead \<Rightarrow> OutOfBoundsRead
      | Returns v \<Rightarrow> Returns (caught m (native_setTokenNumbering m v)))"

definition setWhitespaceHandling :: "Morfeusz \<Rightarrow> int \<Rightarrow> (Error \<times> Morfeusz) native" where
  "setWhitespaceHandling m handling =
     (case table_index translateWhitespaceHandling handling of
        OutOfBoundsRead \<Rightarrow> OutOfBoundsRead
      | Returns v \<Rightarrow> Returns (caught m (native_setWhitespaceHandling m v)))"

definition aggl :: "Morfeusz \<Rightarrow> String" where
  "aggl m = makeString (getAggl m)"

definition praet :: "Morfeusz \<Rightarrow> String" where
  "praet m = makeString (getPraet m)"

definition charset :: "Morfeusz \<Rightarrow> int" where
  "charset m = reverseTranslate translateCharset (getCharset m)"

definition caseHandling :: "Morfeusz \<Rightarrow> int" where
  "caseHandling m = reverseTranslate translateCaseHandling (getCaseHandling m)"

definition tokenNumbering :: "Morfeusz \<Rightarrow> int" where
  "tokenNumbering m = reverseTranslate translateTokenNumbering (getTokenNumbering m)"

definition whitespaceHandling :: "Morfeusz \<Rightarrow> int" where
  "whitespaceHandling m =
     reverseTranslate translateWhitespaceHandling (getWhitespaceHandling m)"

section \<open>Creation and configuration: morfeusz.go\<close>

text \<open>
  The Go \<open>*Morfeusz\<close> holds the native handle; the model passes the native instance
  itself. A setter returns the Go error and the instance after the call.
\<close>

record Config =
  cDictName :: go_string
  cAggl :: go_string
  cPraet :: go_string
  cCharset :: int
  cTokenNumbering :: int
  cCaseHandling :: int
  cWhitespaceHandling :: int
  cUsage :: int

definition errInvalidCharset :: string where
  "errInvalidCharset = ''Invalid charset''"

definition errInvalidUsage :: string where
  "errInvalidUsage = ''Invalid usage option''"

definition returned :: "Error \<times> Morfeusz \<Rightarrow> go_error \<times> Morfeusz" where
  "returned r = (newError (fst r), snd r)"

definition SetAggl :: "Morfeusz \<Rightarrow> go_string \<Rightarrow> go_error \<times> Morfeusz" where
  "SetAggl m a = returned (setAggl m (makeStructString a))"

definition SetPraet :: "Morfeusz \<Rightarrow> go_string \<Rightarrow> go_error \<times> Morfeusz" where
  "SetPraet m a = returned (setPraet m (makeStructString a))"


definition SetCharset :: "Morfeusz \<Rightarrow> int \<Rightarrow> (go_error \<times> Morfeusz) native" where
  "SetCharset m encoding =
     (if encoding < UTF8 \<or> encoding > CP852 then Returns (Some errInvalidCharset, m)
      else (case setCharset m encoding of
              OutOfBoundsRead \<Rightarrow> OutOfBoundsRead
            | Returns r \<Rightarrow> Returns (returned r)))"

definition SetCaseHandling :: "Morfeusz \<Rightarrow> int \<Rightarrow> (go_error \<times> Morfeusz) native" where
  "SetCaseHandling m handling =
     (case setCaseHandling m handling of
        OutOfBoundsRead \<Rightarrow> OutOfBoundsRead
      | Returns r \<Rightarrow> Returns (returned r))"

definition SetTokenNumbering :: "Morfeusz \<Rightarrow> int \<Rightarrow> (go_error \<times> Morfeusz) native" where
  "SetTokenNumbering m numbering =
     (case setTokenNumbering m numbering of
        OutOfBoundsRead \<Rightarrow> OutOfBoundsRead
      | Returns r \<Rightarrow> Returns (returned r))"

definition SetWhitespaceHandling :: "Morfeusz \<Rightarrow> int \<Rightarrow> (go_error \<times> Morfeusz) native" where
  "SetWhitespaceHandling m handling =
     (case setWhitespaceHandling m handling of
        OutOfBoundsRead \<Rightarrow> OutOfBoundsRead
      | Returns r \<Rightarrow> Returns (returned r))"

definition Charset :: "Morfeusz \<Rightarrow> int" where
  "Charset m = charset m"



definition CaseHandling :: "Morfeusz \<Rightarrow> int" where
  "CaseHandling m = caseHandling m"

definition TokenNumbering :: "Morfeusz \<Rightarrow> int" where
  "TokenNumbering m = tokenNumbering m"

definition WhitespaceHandling :: "Morfeusz \<Rightarrow> int" where
  "WhitespaceHandling m = whitespaceHandling m"

text \<open>
  \<open>if err := step; err != nil { return nil, err }\<close> followed by the rest of \<open>New\<close>.
  \<open>Inl err\<close> is \<open>(nil, err)\<close> and \<open>Inr m\<close> is \<open>(m, nil)\<close>.
\<close>

definition orReturn ::
  "(go_error \<times> Morfeusz) native \<Rightarrow> (Morfeusz \<Rightarrow> (string + Morfeusz) native)
     \<Rightarrow> (string + Morfeusz) native" where
  "orReturn r rest =
     (case r of
        OutOfBoundsRead \<Rightarrow> OutOfBoundsRead
      | Returns (Some err, m) \<Rightarrow> Returns (Inl err)
      | Returns (None, m) \<Rightarrow> rest m)"

definition emptyConfig :: Config where
  "emptyConfig =
     \<lparr>cDictName = NilData, cAggl = NilData, cPraet = NilData, cCharset = 0,
      cTokenNumbering = 0,
      cCaseHandling = 0, cWhitespaceHandling = 0, cUsage = 0\<rparr>"

definition New :: "installation \<Rightarrow> Config option \<Rightarrow> (string + Morfeusz) native" where
  "New inst c0 =
     (let c = (case c0 of None \<Rightarrow> emptyConfig | Some c \<Rightarrow> c) in
      if cUsage c < BothAnalyseAndGenerate \<or> cUsage c > GenerateOnly
      then Returns (Inl errInvalidUsage)
      else
        (case createInstance inst (makeStructString (cDictName c)) (cUsage c) of
           OutOfBoundsRead \<Rightarrow> OutOfBoundsRead
         | Returns None \<Rightarrow>
             Returns (Inl (''Failed to load dictionary '' @ [CHR 0x22]
                           @ chars (cDictName c) @ [CHR 0x22]))
         | Returns (Some ret) \<Rightarrow>
             orReturn (if chars (cAggl c) \<noteq> [] then Returns (SetAggl ret (cAggl c))
                       else Returns (None, ret)) (\<lambda>ret.
             orReturn (if chars (cPraet c) \<noteq> [] then Returns (SetPraet ret (cPraet c))
                       else Returns (None, ret)) (\<lambda>ret.
             orReturn (SetCharset ret (cCharset c)) (\<lambda>ret.
             orReturn (SetCaseHandling ret (cCaseHandling c)) (\<lambda>ret.
             orReturn (SetTokenNumbering ret (cTokenNumbering c)) (\<lambda>ret.
             orReturn (SetWhitespaceHandling ret (cWhitespaceHandling c)) (\<lambda>ret.
             Returns (Inr ret)))))))))"

section \<open>Interning tables\<close>

text \<open>Modelled from the spec: the interning tables of the native \<open>IdResolver\<close> (declared in
  \<open>morfeusz2.h\<close>, not part of the sources). A table is a list of strings and the id of
  a string is its position; \<open>index_of\<close> is the first position of a string.
\<close>

fun index_of :: "'a list \<Rightarrow> 'a \<Rightarrow> nat option" where
  "index_of [] v = None"
| "index_of (x # xs) v = (if x = v then Some 0 else map_option Suc (index_of xs v))"

text \<open>Modelled from the spec: resolve-by-id of the native \<open>IdResolver\<close>; an id outside the
  table throws.
\<close>

definition native_getString :: "string list \<Rightarrow> int \<Rightarrow> exception + string" where
  "native_getString tbl i =
     (if 0 \<le> i \<and> i < int (length tbl) then Inr (tbl ! nat i)
      else Inl (Exception ''Invalid id''))"

text \<open>Modelled from the spec: resolve-by-string of the native \<open>IdResolver\<close>; a string that
  is not in the table throws.
\<close>

definition native_getId :: "string list \<Rightarrow> string \<Rightarrow> exception + int" where
  "native_getId tbl s =
     (case index_of tbl s of
        None \<Rightarrow> Inl (Exception (''Invalid string: '' @ s))
      | Some i \<Rightarrow> Inr (int i))"

text \<open>Modelled from the spec: \<open>Morfeusz::getIdResolver\<close> of the native library; the resolver
  of an instance reads the tables of its loaded dictionary.
\<close>

definition idResolver :: "Morfeusz \<Rightarrow> dictionary" where
  "idResolver m = dict m"

text \<open>Modelled from the spec: \<open>IdResolver::getTag\<close>, on the tag table.\<close>

definition native_getTag :: "dictionary \<Rightarrow> int \<Rightarrow> exception + string" where
  "native_getTag d i = native_getString (tagTable d) i"

text \<open>Modelled from the spec: \<open>IdResolver::getTagId\<close>, on the tag table.\<close>

definition native_getTagId :: "dictionary \<Rightarrow> string \<Rightarrow> exception + int" where
  "native_getTagId d s = native_getId (tagTable d) s"

text \<open>Modelled from the spec: \<open>IdResolver::getName\<close>, on the name table.\<close>

definition native_getName :: "dictionary \<Rightarrow> int \<Rightarrow> exception + string" where
  "native_getName d i = native_getString (nameTable d) i"

text \<open>Modelled from the spec: \<open>IdResolver::getNameId\<close>, on the name table.\<close>

definition native_getNameId :: "dictionary \<Rightarrow> string \<Rightarrow> exception + int" where
  "native_getNameId d s = native_getId (nameTable d) s"

text \<open>Modelled from the spec: \<open>IdResolver::getLabelsAsString\<close>, on the labels table.\<close>

definition native_getLabelsAsString :: "dictionary \<Rightarrow> int \<Rightarrow> exception + string" where
  "native_getLabelsAsString d i = native_getString (labelsTable d) i"

text \<open>Modelled from the spec: \<open>IdResolver::getLabelsId\<close>, on the labels table.\<close>

definition native_getLabelsId :: "dictionary \<Rightarrow> string \<Rightarrow> exception + int" where
  "native_getLabelsId d s = native_getId (labelsTable d) s"

text \<open>Modelled from the spec: \<open>IdResolver::getTagsCount\<close>, the size of the tag table.\<close>

definition native_getTagsCount :: "dictionary \<Rightarrow> int" where
  "native_getTagsCount d = int (length (tagTable d))"

text \<open>Modelled from the spec: \<open>IdResolver::getNamesCount\<close>, the size of the name table.\<close>

definition native_getNamesCount :: "dictionary \<Rightarrow> int" where
  "native_getNamesCount d = int (length (nameTable d))"

text \<open>Modelled from the spec: \<open>IdResolver::getLabelsCount\<close>, the size of the labels table.\<close>

definition native_getLabelsCount :: "dictionary \<Rightarrow> int" where
  "native_getLabelsCount d = int (length (labelsTable d))"

text \<open>The resolvers of \<open>morfeusz-cgo.cc\<close>: every exception becomes a sentinel.\<close>

definition tag :: "Morfeusz \<Rightarrow> int \<Rightarrow> String" where
  "tag m i = (case native_getTag (idResolver m) i of
                Inr s \<Rightarrow> makeString s | Inl e \<Rightarrow> emptyString)"

definition tagId :: "Morfeusz \<Rightarrow> String \<Rightarrow> int" where
  "tagId m s = (case native_getTagId (idResolver m) (stdString s) of
                  Inr i \<Rightarrow> i | Inl e \<Rightarrow> invalidId)"

definition name :: "Morfeusz \<Rightarrow> int \<Rightarrow> String" where
  "name m i = (case native_getName (idResolver m) i of
                 Inr s \<Rightarrow> makeString s | Inl e \<Rightarrow> emptyString)"

definition nameId :: "Morfeusz \<Rightarrow> String \<Rightarrow> int" where
  "nameId m s = (case native_getNameId (idResolver m) (stdString s) of
                   Inr i \<Rightarrow> i | Inl e \<Rightarrow> invalidId)"

definition labelsAsString :: "Morfeusz \<Rightarrow> int \<Rightarrow> String" where
  "labelsAsString m i = (case native_getLabelsAsString (idResolver m) i of
                           Inr s \<Rightarrow> makeString s | Inl e \<Rightarrow> emptyString)"

definition labelsId :: "Morfeusz \<Rightarrow> String \<Rightarrow> int" where
  "labelsId m s = (case native_getLabelsId (idResolver m) (stdString s) of
                     Inr i \<Rightarrow> i | Inl e \<Rightarrow> invalidId)"

definition tagsCount :: "Morfeusz \<Rightarrow> int" where
  "tagsCount m = native_getTagsCount (idResolver m)"

definition namesCount :: "Morfeusz \<Rightarrow> int" where
  "namesCount m = native_getNamesCount (idResolver m)"

definition labelsCount :: "Morfeusz \<Rightarrow> int" where
  "labelsCount m = native_getLabelsCount (idResolver m)"

text \<open>
  The resolvers of \<open>morfeusz.go\<close>. The id is a Go \<open>int\<close> and crosses the boundary as
  \<open>C.int(id)\<close>.
\<close>

definition Tag :: "Morfeusz \<Rightarrow> int \<Rightarrow> string" where
  "Tag m i = goStringFree (tag m (C_int i))"

definition TagID :: "Morfeusz \<Rightarrow> go_string \<Rightarrow> int" where
  "TagID m s = tagId m (makeStructString s)"

definition Name :: "Morfeusz \<Rightarrow> int \<Rightarrow> string" where
  "Name m i = goStringFree (name m (C_int i))"

definition NameID :: "Morfeusz \<Rightarrow> go_string \<Rightarrow> int" where
  "NameID m s = nameId m (makeStructString s)"

definition LabelsAsString :: "Morfeusz \<Rightarrow> int \<Rightarrow> string" where
  "LabelsAsString m i = goStringFree (labelsAsString m (C_int i))"

definition LabelsID :: "Morfeusz \<Rightarrow> go_string \<Rightarrow> int" where
  "LabelsID m s = labelsId m (makeStructString s)"

definition TagsCount :: "Morfeusz \<Rightarrow> int" where
  "TagsCount m = tagsCount m"

definition NamesCount :: "Morfeusz \<Rightarrow> int" where
  "NamesCount m = namesCount m"

definition LabelsCount :: "Morfeusz \<Rightarrow> int" where
  "LabelsCount m = labelsCount m"

section \<open>The result cursor\<close>

text \<open>Modelled from the spec: the native \<open>ResultsIterator\<close> (declared in \<open>morfeusz2.h\<close>, not
  part of the sources): the interpretations not yet pulled, in input order.
\<close>

record ResultsIterator =
  pending :: "MorphInterpretation list"

text \<open>Modelled from the spec: \<open>ResultsIterator::hasNext\<close>. The method is not const, so the
  model returns the cursor too; the spec says the call has no side effect.
\<close>

definition native_hasNext :: "ResultsIterator \<Rightarrow> bool \<times> ResultsIterator" where
  "native_hasNext r = (pending r \<noteq> [], r)"

text \<open>Modelled from the spec: \<open>ResultsIterator::next\<close>. It hands out the first pending
  interpretation and advances by one; on an exhausted cursor it throws.
\<close>

definition native_next ::
  "ResultsIterator \<Rightarrow> (exception + MorphInterpretation) \<times> ResultsIterator" where
  "native_next r =
     (case pending r of
        [] \<Rightarrow> (Inl (Exception ''No more interpretations available''), r)
      | x # xs \<Rightarrow> (Inr x, r\<lparr>pending := xs\<rparr>))"

definition makeTokenInfo :: "MorphInterpretation \<Rightarrow> TokenInfo" where
  "makeTokenInfo i =
     \<lparr>orth = makeString (mi_orth i), lemma_str = makeString (mi_lemma i),
      startNode = mi_startNode i, endNode = mi_endNode i, tagID = mi_tagId i,
      nameID = mi_nameId i, labelsID = mi_labelsId i\<rparr>"

definition hasNext :: "ResultsIterator \<Rightarrow> int \<times> ResultsIterator" where
  "hasNext r = (case native_hasNext r of (b, r') \<Rightarrow> (if b then 1 else 0, r'))"

definition next_c :: "ResultsIterator \<Rightarrow> TokenInfo \<times> ResultsIterator" where
  "next_c r =
     (case native_next r of
        (Inr i, r') \<Rightarrow> (makeTokenInfo i, r')
      | (Inl e, r') \<Rightarrow> (emptyTokenInfo, r'))"

text \<open>
  \<open>Next\<close> and \<open>TokenInfo\<close> of \<open>morfeusz.go\<close>; \<open>None\<close> is the nil \<open>*TokenInfo\<close>.
\<close>

definition gcTokenInfo :: "TokenInfo \<Rightarrow> TokenInfo" where
  "gcTokenInfo t = t"

definition Next :: "ResultsIterator \<Rightarrow> bool \<times> ResultsIterator" where
  "Next r = (case hasNext r of (b, r') \<Rightarrow> (b \<noteq> 0, r'))"

definition TokenInfo :: "ResultsIterator \<Rightarrow> TokenInfo option \<times> ResultsIterator" where
  "TokenInfo r =
     (case next_c r of
        (t, r') \<Rightarrow> (if String_n (orth t) = 0 then None else Some (gcTokenInfo t), r'))"

section \<open>Batch generation\<close>

text \<open>Modelled from the spec: \<open>Morfeusz::generate(lemma, vec)\<close> of the native library. An
  instance created for analysis only throws; otherwise the forms are those of the
  dictionary's generation algorithm.
\<close>

definition native_generate ::
  "Morfeusz \<Rightarrow> string \<Rightarrow> exception + MorphInterpretation list" where
  "native_generate m l =
     (if usage m = morfeusz_ANALYSE_ONLY
      then Inl (Exception ''Cannot generate with an analyse-only instance'')
      else generation (dict m) l)"


definition makeTokenInfoArray :: "MorphInterpretation list \<Rightarrow> TokenInfoArray" where
  "makeTokenInfoArray vec =
     \<lparr>tokens = Some (map makeTokenInfo vec), length_tokens = int (length vec),
      error = noError\<rparr>"

definition makeTokenInfoArray_exception :: "exception \<Rightarrow> TokenInfoArray" where
  "makeTokenInfoArray_exception e =
     \<lparr>tokens = None, length_tokens = 0, error = makeError e\<rparr>"

definition generate :: "Morfeusz \<Rightarrow> String \<Rightarrow> TokenInfoArray" where
  "generate m l =
     (case native_generate m (stdString l) of
        Inr vec \<Rightarrow> makeTokenInfoArray vec
      | Inl e \<Rightarrow> makeTokenInfoArray_exception e)"





section \<open>Dictionary search paths\<close>













section \<open>The configuration steps of New\<close>

text \<open>
  The steps that \<open>New\<close> runs after the native instance exists, in their order. A step
  that \<open>New\<close> skips (\<open>Aggl\<close> or \<open>Praet\<close> empty) returns no error and leaves the instance
  as it is.
\<close>

type_synonym step = "Morfeusz \<Rightarrow> (go_error \<times> Morfeusz) native"

definition configSteps :: "Config \<Rightarrow> step list" where
  "configSteps c =
     [\<lambda>m. if chars (cAggl c) \<noteq> [] then Returns (SetAggl m (cAggl c))
          else Returns (None, m),
      \<lambda>m. if chars (cPraet c) \<noteq> [] then Returns (SetPraet m (cPraet c))
          else Returns (None, m),
      \<lambda>m. SetCharset m (cCharset c),
      \<lambda>m. SetCaseHandling m (cCaseHandling c),
      \<lambda>m. SetTokenNumbering m (cTokenNumbering c),
      \<lambda>m. SetWhitespaceHandling m (cWhitespaceHandling c)]"

text \<open>
  \<open>first_error\<close>: the error of the first step that returns one, every step before it
  having succeeded. \<open>all_succeed\<close>: the instance after the last step when every step
  returned a nil error.
\<close>

fun first_error :: "step list \<Rightarrow> Morfeusz \<Rightarrow> string option" where
  "first_error [] m = None"
| "first_error (s # ss) m =
     (case s m of
        OutOfBoundsRead \<Rightarrow> None
      | Returns (Some err, m') \<Rightarrow> Some err
      | Returns (None, m') \<Rightarrow> first_error ss m')"

fun all_succeed :: "step list \<Rightarrow> Morfeusz \<Rightarrow> Morfeusz option" where
  "all_succeed [] m = Some m"
| "all_succeed (s # ss) m =
     (case s m of
        OutOfBoundsRead \<Rightarrow> None
      | Returns (Some err, m') \<Rightarrow> None
      | Returns (None, m') \<Rightarrow> all_succeed ss m')"

fun run_steps :: "step list \<Rightarrow> Morfeusz \<Rightarrow> (string + Morfeusz) native" where
  "run_steps [] m = Returns (Inr m)"
| "run_steps (s # ss) m = orReturn (s m) (run_steps ss)"




section \<open>A small installation for concrete evaluation\<close>

definition example_dictionary :: dictionary where
  "example_dictionary =
     \<lparr>tagTable = [''ign'', ''sp'', ''subst:sg:nom:f'', ''subst:sg:gen:m3''],
      nameTable = [[], ''nazwa_pospolita''],
      labelsTable = [[], ''pot.''],
      agglOptions = [''strict'', ''permissive''],
      praetOptions = [''split'', ''composite''],
      defaultAggl = ''strict'',
      defaultPraet = ''split'',
      acceptsCharset = (\<lambda>v. True),
      acceptsCaseHandling = (\<lambda>v. True),
      acceptsTokenNumbering = (\<lambda>v. True),
      acceptsWhitespaceHandling = (\<lambda>v. True),
      generation = (\<lambda>l. if l = ''bez''
         then Inr [\<lparr>mi_startNode = 0, mi_endNode = 1, mi_orth = ''bzu'', mi_lemma = ''bez:S'',
                    mi_tagId = 3, mi_nameId = 1, mi_labelsId = 0\<rparr>]
         else Inr [])\<rparr>"

definition example_installation :: installation where
  "example_installation =
     \<lparr>loader = (\<lambda>paths nm. if nm = ''sgjp'' then Some example_dictionary else None),
      defaultDictName = ''sgjp'',
      defaultSearchPaths = [''/usr/share/morfeusz2/dictionaries'']\<rparr>"

definition example_Morfeusz :: Morfeusz where
  "example_Morfeusz =
     \<lparr>usage = morfeusz_BOTH_ANALYSE_AND_GENERATE, dict = example_dictionary,
      getCharset = morfeusz_UTF8,
      getCaseHandling = morfeusz_CONDITIONALLY_CASE_SENSITIVE,
      getTokenNumbering = morfeusz_SEPARATE_NUMBERING,
      getWhitespaceHandling = morfeusz_SKIP_WHITESPACES,
      getAggl = ''strict'', getPraet = ''split'',
      dictionarySearchPaths = [''/usr/share/morfeusz2/dictionaries'']\<rparr>"



text \<open>
  A second installation, whose native setters reject ignoring the case, continuous
  numbering and keeping whitespace, and which has no dictionary with the empty name.
\<close>

definition strict_dictionary :: dictionary where
  "strict_dictionary =
     example_dictionary
       \<lparr>acceptsCaseHandling := (\<lambda>v. v \<noteq> morfeusz_IGNORE_CASE),
        acceptsTokenNumbering := (\<lambda>v. v \<noteq> morfeusz_CONTINUOUS_NUMBERING),
        acceptsWhitespaceHandling := (\<lambda>v. v \<noteq> morfeusz_KEEP_WHITESPACES)\<rparr>"

definition strict_installation :: installation where
  "strict_installation =
     example_installation
       \<lparr>loader := (\<lambda>paths nm. if nm = ''sgjp'' then Some strict_dictionary else None)\<rparr>"

definition strict_Morfeusz :: Morfeusz where
  "strict_Morfeusz = example_Morfeusz\<lparr>dict := strict_dictionary\<rparr>"

definition example_cursor :: ResultsIterator where
  "example_cursor =
     \<lparr>pending = [\<lparr>mi_startNode = 0, mi_endNode = 1, mi_orth = ''kota'', mi_lemma = ''kot:Sm1'',
                   mi_tagId = 3, mi_nameId = 1, mi_labelsId = 1\<rparr>]\<rparr>"

section \<open>Strings across the boundary\<close>

lemma stdString_makeStructString: "stdString (makeStructString s) = chars s"
  by (cases s) (simp_all add: stdString_def)

lemma goStringFree_makeString: "goStringFree (makeString s) = s"
  by (simp add: goStringFree_def goString_def makeString_def)

text \<open>
  \<open>newError\<close> looks at the length only: an exception whose \<open>what()\<close> is empty would come
  back as a nil error. Every exception of the modelled engine carries a message.
\<close>

lemma newError_makeError:
  "newError (makeError e) = (if what e = [] then None else Some (what e))"
  by (simp add: newError_def makeError_def makeString_def goStringFree_def goString_def)

lemma newError_noError: "newError noError = None"
  by (simp add: newError_def noError_def emptyString_def)

lemma C_int_id: "- (2 ^ 31) \<le> i \<Longrightarrow> i < 2 ^ 31 \<Longrightarrow> C_int i = i"
  unfolding C_int_def
  by (simp add: sint_sbintrunc' signed_take_bit_int_eq_self)

section \<open>Range validation of enumerated values\<close>

text \<open>
  \<open>SetCharset\<close> and \<open>New\<close> (for \<open>Usage\<close>) check the range in Go before the call: an
  out-of-range value is answered with an error and never reaches the native table.
\<close>

lemma SetCharset_guard:
  "encoding < 0 \<or> 3 < encoding \<Longrightarrow>
   SetCharset m encoding = Returns (Some errInvalidCharset, m)"
  by (auto simp add: SetCharset_def UTF8_def CP852_def)


text \<open>
  An in-range value is translated through the table and handed to the native setter,
  which stores it or rejects it.
\<close>

lemma SetCharset_in_range:
  "0 \<le> x \<Longrightarrow> x \<le> 3 \<Longrightarrow>
   SetCharset m x =
     (if acceptsCharset (dict m) (translateCharset ! nat x)
      then Returns (None, m\<lparr>getCharset := translateCharset ! nat x\<rparr>)
      else Returns (Some ''Invalid charset'', m))"
  by (simp add: SetCharset_def UTF8_def CP852_def setCharset_def table_index_def
      translateCharset_def native_setCharset_def caught_def returned_def newError_noError
      newError_makeError)

lemma SetCaseHandling_in_range:
  "0 \<le> x \<Longrightarrow> x \<le> 2 \<Longrightarrow>
   SetCaseHandling m x =
     (if acceptsCaseHandling (dict m) (translateCaseHandling ! nat x)
      then Returns (None, m\<lparr>getCaseHandling := translateCaseHandling ! nat x\<rparr>)
      else Returns (Some ''Invalid case handling'', m))"
  by (simp add: SetCaseHandling_def setCaseHandling_def table_index_def
      translateCaseHandling_def native_setCaseHandling_def caught_def returned_def
      newError_noError newError_makeError)

lemma SetTokenNumbering_in_range:
  "0 \<le> x \<Longrightarrow> x \<le> 1 \<Longrightarrow>
   SetTokenNumbering m x =
     (if acceptsTokenNumbering (dict m) (translateTokenNumbering ! nat x)
      then Returns (None, m\<lparr>getTokenNumbering := translateTokenNumbering ! nat x\<rparr>)
      else Returns (Some ''Invalid token numbering'', m))"
  by (simp add: SetTokenNumbering_def setTokenNumbering_def table_index_def
      translateTokenNumbering_def native_setTokenNumbering_def caught_def returned_def
      newError_noError newError_makeError)

lemma SetWhitespaceHandling_in_range:
  "0 \<le> x \<Longrightarrow> x \<le> 2 \<Longrightarrow>
   SetWhitespaceHandling m x =
     (if acceptsWhitespaceHandling (dict m) (translateWhitespaceHandling ! nat x)
      then Returns (None, m\<lparr>getWhitespaceHandling := translateWhitespaceHandling ! nat x\<rparr>)
      else Returns (Some ''Invalid whitespace handling'', m))"
  by (simp add: SetWhitespaceHandling_def setWhitespaceHandling_def table_index_def
      translateWhitespaceHandling_def native_setWhitespaceHandling_def caught_def
      returned_def newError_noError newError_makeError)

lemma example_createInstance:
  "createInstance example_installation (makeStructString NilData) 0
     = Returns (Some example_Morfeusz)"
  by (simp add: createInstance_def table_index_def translateUsage_def
      native_createInstance_default_def native_createInstance_def example_installation_def
      example_Morfeusz_def example_dictionary_def)

lemma strict_createInstance:
  "createInstance strict_installation (makeStructString NilData) 0
     = Returns (Some strict_Morfeusz)"
  by (simp add: createInstance_def table_index_def translateUsage_def
      native_createInstance_default_def native_createInstance_def strict_installation_def
      example_installation_def strict_Morfeusz_def example_Morfeusz_def
      strict_dictionary_def example_dictionary_def)

text \<open>
  Claim C1. The claim says that every enumerated setter, and \<open>New\<close>, rejects an
  out-of-range value before it crosses the boundary, so that the ordinal never indexes
  the native translation table. \<open>SetCaseHandling\<close>, \<open>SetTokenNumbering\<close> and
  \<open>SetWhitespaceHandling\<close> have no such check: the first ordinal past each table is
  passed on and the glue code reads the table outside its bounds, directly and on the
  way through \<open>New\<close>.
\<close>

theorem unguarded_setters_read_past_the_table:
  "SetCaseHandling m 3 = OutOfBoundsRead
   \<and> SetTokenNumbering m 2 = OutOfBoundsRead
   \<and> SetWhitespaceHandling m 3 = OutOfBoundsRead
   \<and> New example_installation (Some (emptyConfig\<lparr>cCaseHandling := 3\<rparr>)) = OutOfBoundsRead"
proof -
  have s: "SetCaseHandling m 3 = OutOfBoundsRead" for m
    by (simp add: SetCaseHandling_def setCaseHandling_def table_index_def
        translateCaseHandling_def)
  have "SetTokenNumbering m 2 = OutOfBoundsRead"
    by (simp add: SetTokenNumbering_def setTokenNumbering_def table_index_def
        translateTokenNumbering_def)
  moreover have "SetWhitespaceHandling m 3 = OutOfBoundsRead"
    by (simp add: SetWhitespaceHandling_def setWhitespaceHandling_def table_index_def
        translateWhitespaceHandling_def)
  moreover have "New example_installation (Some (emptyConfig\<lparr>cCaseHandling := 3\<rparr>))
      = OutOfBoundsRead"
    using example_createInstance
    by (simp add: New_def emptyConfig_def BothAnalyseAndGenerate_def GenerateOnly_def
        orReturn_def SetCharset_in_range s example_Morfeusz_def example_dictionary_def)
  ultimately show ?thesis
    using s by simp
qed

section \<open>The string-valued setters\<close>

lemma SetAggl_rejected:
  "chars v \<notin> set (agglOptions (dict m)) \<Longrightarrow>
   SetAggl m v = (Some (''Invalid aggl option: '' @ chars v), m)"
  by (simp add: SetAggl_def returned_def setAggl_def native_setAggl_def
      stdString_makeStructString caught_def newError_makeError)


lemma SetPraet_rejected:
  "chars v \<notin> set (praetOptions (dict m)) \<Longrightarrow>
   SetPraet m v = (Some (''Invalid praet option: '' @ chars v), m)"
  by (simp add: SetPraet_def returned_def setPraet_def native_setPraet_def
      stdString_makeStructString caught_def newError_makeError)








section \<open>New\<close>


lemma run_steps_Nil: "run_steps [] = (\<lambda>m. Returns (Inr m))"
  by (rule ext) simp

lemma run_steps_Cons: "run_steps (s # ss) = (\<lambda>m. orReturn (s m) (run_steps ss))"
  by (rule ext) simp

lemma New_run_steps:
  assumes "BothAnalyseAndGenerate \<le> cUsage c" and "cUsage c \<le> GenerateOnly"
    and "createInstance inst (makeStructString (cDictName c)) (cUsage c) = Returns (Some m0)"
  shows "New inst (Some c) = run_steps (configSteps c) m0"
  using assms by (simp add: New_def configSteps_def run_steps_Nil run_steps_Cons)

lemma run_steps_first_error:
  "first_error ss m = Some e \<Longrightarrow> run_steps ss m = Returns (Inl e)"
  by (induction ss arbitrary: m)
    (auto simp add: orReturn_def split: native.splits option.splits prod.splits)

lemma run_steps_all_succeed:
  "run_steps ss m = Returns (Inr m') \<longleftrightarrow> all_succeed ss m = Some m'"
  by (induction ss arbitrary: m)
    (auto simp add: orReturn_def split: native.splits option.splits prod.splits)

text \<open>
  Claim C10. \<open>New\<close> is all-or-nothing. Once the native instance \<open>m0\<close> exists: if a
  configuration step returns an error (the steps before it having succeeded), \<open>New\<close>
  returns no instance and that error; and \<open>New\<close> returns an instance \<open>m\<close> exactly when
  every configuration step succeeded, \<open>m\<close> being the instance after the last step.
\<close>

theorem New_all_or_nothing:
  assumes "BothAnalyseAndGenerate \<le> cUsage c" and "cUsage c \<le> GenerateOnly"
    and "createInstance inst (makeStructString (cDictName c)) (cUsage c) = Returns (Some m0)"
  shows "(first_error (configSteps c) m0 = Some e \<longrightarrow> New inst (Some c) = Returns (Inl e))
       \<and> (New inst (Some c) = Returns (Inr m) \<longleftrightarrow> all_succeed (configSteps c) m0 = Some m)"
  using New_run_steps [OF assms] run_steps_first_error run_steps_all_succeed by simp

text \<open>
  Each of the six steps in turn is the one that fails, and \<open>New\<close> returns its error:
  \<open>Aggl = xyz\<close>, \<open>Praet = xyz\<close> and charset 4 on the first installation; ignoring the
  case, continuous numbering and keeping whitespace on the second, whose native setters
  reject them. The empty configuration passes every step.
\<close>

lemma example_first_errors:
  "first_error (configSteps (emptyConfig\<lparr>cAggl := Data ''xyz''\<rparr>)) example_Morfeusz
     = Some ''Invalid aggl option: xyz''"
  "first_error (configSteps (emptyConfig\<lparr>cPraet := Data ''xyz''\<rparr>)) example_Morfeusz
     = Some ''Invalid praet option: xyz''"
  "first_error (configSteps (emptyConfig\<lparr>cCharset := 4\<rparr>)) example_Morfeusz
     = Some errInvalidCharset"
proof -
  have a: "chars (Data ''xyz'') \<notin> set (agglOptions (dict example_Morfeusz))"
    and p: "chars (Data ''xyz'') \<notin> set (praetOptions (dict example_Morfeusz))"
    by (simp_all add: example_Morfeusz_def example_dictionary_def)
  show "first_error (configSteps (emptyConfig\<lparr>cAggl := Data ''xyz''\<rparr>)) example_Morfeusz
     = Some ''Invalid aggl option: xyz''"
    using SetAggl_rejected [OF a] by (simp add: configSteps_def emptyConfig_def)
  show "first_error (configSteps (emptyConfig\<lparr>cPraet := Data ''xyz''\<rparr>)) example_Morfeusz
     = Some ''Invalid praet option: xyz''"
    using SetPraet_rejected [OF p] by (simp add: configSteps_def emptyConfig_def)
  have "SetCharset example_Morfeusz 4 = Returns (Some errInvalidCharset, example_Morfeusz)"
    by (rule SetCharset_guard) simp
  then show "first_error (configSteps (emptyConfig\<lparr>cCharset := 4\<rparr>)) example_Morfeusz
     = Some errInvalidCharset"
    by (simp add: configSteps_def emptyConfig_def)
qed

lemma strict_charset_step:
  "SetCharset strict_Morfeusz 0 = Returns (None, strict_Morfeusz)"
  by (simp add: SetCharset_in_range translateCharset_def strict_Morfeusz_def
      strict_dictionary_def example_Morfeusz_def example_dictionary_def)

lemma strict_handling_steps:
  "SetCaseHandling strict_Morfeusz 0 = Returns (None, strict_Morfeusz)"
  "SetCaseHandling strict_Morfeusz 2 = Returns (Some ''Invalid case handling'', strict_Morfeusz)"
  "SetTokenNumbering strict_Morfeusz 0 = Returns (None, strict_Morfeusz)"
  "SetTokenNumbering strict_Morfeusz 1
     = Returns (Some ''Invalid token numbering'', strict_Morfeusz)"
  "SetWhitespaceHandling strict_Morfeusz 2
     = Returns (Some ''Invalid whitespace handling'', strict_Morfeusz)"
  by (simp_all add: SetCaseHandling_in_range SetTokenNumbering_in_range
      SetWhitespaceHandling_in_range translateCaseHandling_def translateTokenNumbering_def
      translateWhitespaceHandling_def strict_Morfeusz_def strict_dictionary_def
      example_Morfeusz_def example_dictionary_def)

lemma strict_first_errors:
  "first_error (configSteps (emptyConfig\<lparr>cCaseHandling := 2\<rparr>)) strict_Morfeusz
     = Some ''Invalid case handling''"
  "first_error (configSteps (emptyConfig\<lparr>cTokenNumbering := 1\<rparr>)) strict_Morfeusz
     = Some ''Invalid token numbering''"
  "first_error (configSteps (emptyConfig\<lparr>cWhitespaceHandling := 2\<rparr>)) strict_Morfeusz
     = Some ''Invalid whitespace handling''"
  using strict_charset_step strict_handling_steps
  by (simp_all add: configSteps_def emptyConfig_def)

lemma example_all_succeed:
  "all_succeed (configSteps emptyConfig) example_Morfeusz = Some example_Morfeusz"
proof -
  have e: "example_Morfeusz\<lparr>getCharset := morfeusz_UTF8,
        getCaseHandling := morfeusz_CONDITIONALLY_CASE_SENSITIVE,
        getTokenNumbering := morfeusz_SEPARATE_NUMBERING,
        getWhitespaceHandling := morfeusz_SKIP_WHITESPACES\<rparr> = example_Morfeusz"
    by (simp add: example_Morfeusz_def)
  have d: "dict example_Morfeusz = example_dictionary"
    by (simp add: example_Morfeusz_def)
  show ?thesis
    using e
    by (simp add: configSteps_def emptyConfig_def SetCharset_in_range
        SetCaseHandling_in_range SetTokenNumbering_in_range SetWhitespaceHandling_in_range
        translateCharset_def translateCaseHandling_def translateTokenNumbering_def
        translateWhitespaceHandling_def d example_dictionary_def)
qed

theorem New_all_or_nothing_witness:
  "New example_installation (Some (emptyConfig\<lparr>cAggl := Data ''xyz''\<rparr>))
     = Returns (Inl ''Invalid aggl option: xyz'')
   \<and> New example_installation (Some (emptyConfig\<lparr>cPraet := Data ''xyz''\<rparr>))
     = Returns (Inl ''Invalid praet option: xyz'')
   \<and> New example_installation (Some (emptyConfig\<lparr>cCharset := 4\<rparr>))
     = Returns (Inl errInvalidCharset)
   \<and> New strict_installation (Some (emptyConfig\<lparr>cCaseHandling := 2\<rparr>))
     = Returns (Inl ''Invalid case handling'')
   \<and> New strict_installation (Some (emptyConfig\<lparr>cTokenNumbering := 1\<rparr>))
     = Returns (Inl ''Invalid token numbering'')
   \<and> New strict_installation (Some (emptyConfig\<lparr>cWhitespaceHandling := 2\<rparr>))
     = Returns (Inl ''Invalid whitespace handling'')
   \<and> createInstance strict_installation (makeStructString NilData) 0
       = Returns (Some strict_Morfeusz)
   \<and> first_error (configSteps (emptyConfig\<lparr>cCaseHandling := 2\<rparr>)) strict_Morfeusz
       = Some ''Invalid case handling''
   \<and> all_succeed (configSteps emptyConfig) example_Morfeusz = Some example_Morfeusz
   \<and> New example_installation (Some emptyConfig) = Returns (Inr example_Morfeusz)"
proof -
  have h: "(first_error (configSteps c) example_Morfeusz = Some e
        \<longrightarrow> New example_installation (Some c) = Returns (Inl e))
      \<and> (New example_installation (Some c) = Returns (Inr m)
        \<longleftrightarrow> all_succeed (configSteps c) example_Morfeusz = Some m)"
    if "cDictName c = NilData" and "cUsage c = 0" for c e m
    using that example_createInstance
      New_all_or_nothing [of c example_installation example_Morfeusz e m]
    by (simp add: BothAnalyseAndGenerate_def GenerateOnly_def)
  have h': "(first_error (configSteps c) strict_Morfeusz = Some e
        \<longrightarrow> New strict_installation (Some c) = Returns (Inl e))
      \<and> (New strict_installation (Some c) = Returns (Inr m)
        \<longleftrightarrow> all_succeed (configSteps c) strict_Morfeusz = Some m)"
    if "cDictName c = NilData" and "cUsage c = 0" for c e m
    using that strict_createInstance
      New_all_or_nothing [of c strict_installation strict_Morfeusz e m]
    by (simp add: BothAnalyseAndGenerate_def GenerateOnly_def)
  have "New example_installation (Some (emptyConfig\<lparr>cAggl := Data ''xyz''\<rparr>))
     = Returns (Inl ''Invalid aggl option: xyz'')"
    using h [of "emptyConfig\<lparr>cAggl := Data ''xyz''\<rparr>"] example_first_errors(1)
    by (simp add: emptyConfig_def)
  moreover have "New example_installation (Some (emptyConfig\<lparr>cPraet := Data ''xyz''\<rparr>))
     = Returns (Inl ''Invalid praet option: xyz'')"
    using h [of "emptyConfig\<lparr>cPraet := Data ''xyz''\<rparr>"] example_first_errors(2)
    by (simp add: emptyConfig_def)
  moreover have "New example_installation (Some (emptyConfig\<lparr>cCharset := 4\<rparr>))
     = Returns (Inl errInvalidCharset)"
    using h [of "emptyConfig\<lparr>cCharset := 4\<rparr>"] example_first_errors(3)
    by (simp add: emptyConfig_def)
  moreover have "New strict_installation (Some (emptyConfig\<lparr>cCaseHandling := 2\<rparr>))
     = Returns (Inl ''Invalid case handling'')"
    using h' [of "emptyConfig\<lparr>cCaseHandling := 2\<rparr>"] strict_first_errors(1)
    by (simp add: emptyConfig_def)
  moreover have "New strict_installation (Some (emptyConfig\<lparr>cTokenNumbering := 1\<rparr>))
     = Returns (Inl ''Invalid token numbering'')"
    using h' [of "emptyConfig\<lparr>cTokenNumbering := 1\<rparr>"] strict_first_errors(2)
    by (simp add: emptyConfig_def)
  moreover have "New strict_installation (Some (emptyConfig\<lparr>cWhitespaceHandling := 2\<rparr>))
     = Returns (Inl ''Invalid whitespace handling'')"
    using h' [of "emptyConfig\<lparr>cWhitespaceHandling := 2\<rparr>"] strict_first_errors(3)
    by (simp add: emptyConfig_def)
  moreover have "New example_installation (Some emptyConfig) = Returns (Inr example_Morfeusz)"
    using h [of emptyConfig _ example_Morfeusz] example_all_succeed
    by (simp add: emptyConfig_def)
  ultimately show ?thesis
    using example_all_succeed strict_createInstance strict_first_errors(1) by simp
qed






section \<open>The cursor\<close>

lemma Next_pending: "fst (Next r) \<longleftrightarrow> pending r \<noteq> []"
  by (simp add: Next_def hasNext_def native_hasNext_def)

lemma Next_unchanged: "snd (Next r) = r"
  by (simp add: Next_def hasNext_def native_hasNext_def)

lemma Next_iterate: "((\<lambda>r. snd (Next r)) ^^ k) r = r"
  by (induction k) (simp_all add: Next_unchanged)

lemma next_c_exhausted: "pending r = [] \<Longrightarrow> next_c r = (emptyTokenInfo, r)"
  by (simp add: next_c_def native_next_def)

lemma next_c_pending:
  "pending r = x # xs \<Longrightarrow> next_c r = (makeTokenInfo x, r\<lparr>pending := xs\<rparr>)"
  by (simp add: next_c_def native_next_def)

lemma orth_makeTokenInfo: "String_n (orth (makeTokenInfo x)) = int (length (mi_orth x))"
  by (simp add: makeTokenInfo_def makeString_def)

text \<open>
  Claim C3. Analysis output never has an empty orth. When \<open>Next\<close> is false, the glue
  code hands out the sentinel record, whose orth has length zero, \<open>TokenInfo\<close> returns
  nil and the cursor stays exhausted. When \<open>Next\<close> is true, \<open>TokenInfo\<close> returns the
  first pending token and advances by one. So \<open>TokenInfo\<close> returns nil exactly on
  exhaustion, never in mid-stream.
\<close>

theorem TokenInfo_exhaustion:
  assumes "\<forall>x \<in> set (pending r). mi_orth x \<noteq> []"
  shows "(\<not> fst (Next r) \<longrightarrow>
            fst (next_c r) = emptyTokenInfo \<and> String_n (orth (fst (next_c r))) = 0
            \<and> TokenInfo r = (None, r))
       \<and> (fst (Next r) \<longrightarrow>
            TokenInfo r = (Some (makeTokenInfo (hd (pending r))), r\<lparr>pending := tl (pending r)\<rparr>))
       \<and> (fst (TokenInfo r) = None \<longleftrightarrow> \<not> fst (Next r))"
proof (cases "pending r")
  case Nil
  then show ?thesis
    by (simp add: Next_pending next_c_exhausted TokenInfo_def emptyTokenInfo_def
        emptyString_def)
next
  case (Cons x xs)
  with assms have "mi_orth x \<noteq> []" by simp
  with Cons show ?thesis
    by (simp add: Next_pending next_c_pending TokenInfo_def orth_makeTokenInfo
        gcTokenInfo_def)
qed

text \<open>A cursor with one pending token: one pull gives the token, the next gives nil.\<close>

theorem TokenInfo_exhaustion_witness:
  "map mi_orth (pending example_cursor) = [''kota'']
   \<and> fst (Next example_cursor)
   \<and> fst (TokenInfo example_cursor) \<noteq> None
   \<and> \<not> fst (Next (snd (TokenInfo example_cursor)))
   \<and> TokenInfo (snd (TokenInfo example_cursor)) = (None, snd (TokenInfo example_cursor))"
proof -
  have a: "\<forall>x \<in> set (pending example_cursor). mi_orth x \<noteq> []"
    by (simp add: example_cursor_def)
  have b: "\<forall>x \<in> set (pending (example_cursor\<lparr>pending := []\<rparr>)). mi_orth x \<noteq> []"
    by simp
  have n: "fst (Next example_cursor)"
    by (simp add: Next_pending example_cursor_def)
  have m: "\<not> fst (Next (example_cursor\<lparr>pending := []\<rparr>))"
    by (simp add: Next_pending)
  have t: "tl (pending example_cursor) = []"
    by (simp add: example_cursor_def)
  have o: "map mi_orth (pending example_cursor) = [''kota'']"
    by (simp add: example_cursor_def)
  show ?thesis
    using TokenInfo_exhaustion [OF a] TokenInfo_exhaustion [OF b] o n m t by simp
qed

text \<open>
  Claim C8. \<open>Next\<close> is repeatable and has no side effect: after any number \<open>k\<close> of
  calls the cursor is the same, \<open>Next\<close> answers the same, and \<open>TokenInfo\<close> behaves as
  it would have without them.
\<close>

theorem Next_repeatable:
  "((\<lambda>r. snd (Next r)) ^^ k) r = r
   \<and> fst (Next (((\<lambda>r. snd (Next r)) ^^ k) r)) = fst (Next r)
   \<and> TokenInfo (((\<lambda>r. snd (Next r)) ^^ k) r) = TokenInfo r"
  by (simp add: Next_iterate)

section \<open>Batch generation\<close>









section \<open>Interning tables: round trip\<close>

lemma index_of_Some: "index_of xs v = Some i \<Longrightarrow> i < length xs \<and> xs ! i = v"
  by (induction xs arbitrary: i) (auto split: if_splits)

lemma index_of_None: "index_of xs v = None \<longleftrightarrow> v \<notin> set xs"
  by (induction xs) auto

lemma index_of_first:
  "i < length xs \<Longrightarrow> xs ! i \<notin> set (take i xs) \<Longrightarrow> index_of xs (xs ! i) = Some i"
proof (induction xs arbitrary: i)
  case Nil
  then show ?case by simp
next
  case (Cons x xs)
  show ?case
  proof (cases i)
    case 0
    then show ?thesis by simp
  next
    case (Suc j)
    with Cons.prems have "j < length xs" and "xs ! j \<notin> set (take j xs)" and "x \<noteq> xs ! j"
      by auto
    with Cons.IH [of j] Suc show ?thesis by simp
  qed
qed

lemma distinct_filter_first:
  assumes "distinct (filter P xs)" and "i < length xs" and "P (xs ! i)"
  shows "xs ! i \<notin> set (take i xs)"
proof
  assume "xs ! i \<in> set (take i xs)"
  have "xs = take i xs @ xs ! i # drop (Suc i) xs"
    using assms(2) by (simp add: id_take_nth_drop)
  then have "filter P xs = filter P (take i xs) @ xs ! i # filter P (drop (Suc i) xs)"
    using assms(3) by (metis filter.simps(2) filter_append)
  with assms(1) have "xs ! i \<notin> set (filter P (take i xs))"
    by (metis distinct_append disjoint_iff list.set_intros(1))
  moreover have "xs ! i \<in> set (filter P (take i xs))"
    using \<open>xs ! i \<in> set (take i xs)\<close> assms(3) by simp
  ultimately show False by simp
qed

lemma native_getId_getString:
  assumes "distinct (filter (\<lambda>s. s \<noteq> []) tbl)" and "0 \<le> i" and "i < int (length tbl)"
    and "tbl ! nat i \<noteq> []"
  shows "native_getId tbl (tbl ! nat i) = Inr i"
proof -
  have "index_of tbl (tbl ! nat i) = Some (nat i)"
    using assms by (intro index_of_first distinct_filter_first [where P = "\<lambda>s. s \<noteq> []"]) auto
  then show ?thesis using assms(2) by (simp add: native_getId_def)
qed

lemma native_getString_getId:
  assumes "t \<in> set tbl"
  shows "\<exists>i. native_getId tbl t = Inr i \<and> 0 \<le> i \<and> i < int (length tbl)
           \<and> native_getString tbl i = Inr t"
proof -
  from assms obtain k where k: "index_of tbl t = Some k"
    by (cases "index_of tbl t") (auto simp add: index_of_None)
  then have "k < length tbl" and "tbl ! k = t"
    by (auto dest: index_of_Some)
  with k show ?thesis
    by (simp add: native_getId_def native_getString_def)
qed

text \<open>
  Claim C6. Tag-table round trip. The tag table has fewer than \<open>2 ^ 31\<close> entries (its
  size is a C \<open>int\<close>) and no string is interned twice; an id without a canonical string
  is one that resolves to the empty string. Then \<open>Tag (TagID t) = t\<close> for every Go
  string \<open>t\<close> that is a tag of the loaded dictionary, and \<open>TagID (Tag i) = i\<close> for every
  id \<open>i\<close> in \<open>[0, TagsCount)\<close> that has a canonical string, whichever Go string \<open>s\<close>
  carries the result of \<open>Tag i\<close>.
\<close>

theorem Tag_TagID_round_trip:
  assumes "length (tagTable (dict m)) < 2 ^ 31"
    and "distinct (filter (\<lambda>s. s \<noteq> []) (tagTable (dict m)))"
  shows "(chars t \<in> set (tagTable (dict m)) \<longrightarrow> Tag m (TagID m t) = chars t)
       \<and> (0 \<le> i \<and> i < TagsCount m \<and> Tag m i \<noteq> [] \<and> chars s = Tag m i
            \<longrightarrow> TagID m s = i)"
proof (intro conjI impI)
  assume "chars t \<in> set (tagTable (dict m))"
  then obtain j where j: "native_getId (tagTable (dict m)) (chars t) = Inr j" "0 \<le> j"
      "j < int (length (tagTable (dict m)))"
      "native_getString (tagTable (dict m)) j = Inr (chars t)"
    using native_getString_getId by blast
  from j(2,3) assms(1) have "C_int j = j"
    by (intro C_int_id) auto
  with j show "Tag m (TagID m t) = chars t"
    by (simp add: Tag_def TagID_def tag_def tagId_def native_getTag_def native_getTagId_def
        idResolver_def stdString_makeStructString goStringFree_makeString)
next
  assume a: "0 \<le> i \<and> i < TagsCount m \<and> Tag m i \<noteq> [] \<and> chars s = Tag m i"
  then have r: "0 \<le> i" "i < int (length (tagTable (dict m)))"
    by (simp_all add: TagsCount_def tagsCount_def native_getTagsCount_def idResolver_def)
  with assms(1) have c: "C_int i = i"
    by (intro C_int_id) auto
  with r have t: "Tag m i = tagTable (dict m) ! nat i"
    by (simp add: Tag_def tag_def native_getTag_def native_getString_def idResolver_def
        goStringFree_makeString)
  with a have "tagTable (dict m) ! nat i \<noteq> []" by simp
  with assms(2) r have "native_getId (tagTable (dict m)) (tagTable (dict m) ! nat i) = Inr i"
    by (intro native_getId_getString)
  with t a show "TagID m s = i"
    by (simp add: TagID_def tagId_def native_getTagId_def idResolver_def
        stdString_makeStructString)
qed

theorem Tag_TagID_round_trip_witness:
  "length (tagTable (dict example_Morfeusz)) < 2 ^ 31
   \<and> distinct (filter (\<lambda>s. s \<noteq> []) (tagTable (dict example_Morfeusz)))
   \<and> ''sp'' \<in> set (tagTable (dict example_Morfeusz))
   \<and> Tag example_Morfeusz (TagID example_Morfeusz (Data ''sp'')) = ''sp''
   \<and> (2::int) < TagsCount example_Morfeusz
   \<and> Tag example_Morfeusz 2 = ''subst:sg:nom:f''
   \<and> TagID example_Morfeusz (Data (Tag example_Morfeusz 2)) = 2"
proof -
  have l: "length (tagTable (dict example_Morfeusz)) < 2 ^ 31"
    by (simp add: example_Morfeusz_def example_dictionary_def)
  have d: "distinct (filter (\<lambda>s. s \<noteq> []) (tagTable (dict example_Morfeusz)))"
    by (simp add: example_Morfeusz_def example_dictionary_def)
  have s: "''sp'' \<in> set (tagTable (dict example_Morfeusz))"
    by (simp add: example_Morfeusz_def example_dictionary_def)
  have c: "(2::int) < TagsCount example_Morfeusz"
    by (simp add: TagsCount_def tagsCount_def native_getTagsCount_def idResolver_def
        example_Morfeusz_def example_dictionary_def)
  have t: "Tag example_Morfeusz 2 = ''subst:sg:nom:f''"
    by (simp add: Tag_def tag_def native_getTag_def native_getString_def idResolver_def
        goStringFree_makeString C_int_id example_Morfeusz_def example_dictionary_def)
  show ?thesis
    using Tag_TagID_round_trip [OF l d, of "Data ''sp''" 2 "Data (Tag example_Morfeusz 2)"]
      l d s c t by simp
qed

section \<open>Interning tables: sentinels\<close>

text \<open>
  For an id that fits a C \<open>int\<close>, resolving outside the table gives the empty string;
  resolving an unknown string gives \<open>- 1\<close>.
\<close>

lemma resolve_by_id_in_C_int_range:
  assumes "- (2 ^ 31) \<le> i" and "i < 2 ^ 31"
  shows "(i < 0 \<or> TagsCount m \<le> i \<longrightarrow> Tag m i = [])
       \<and> (i < 0 \<or> NamesCount m \<le> i \<longrightarrow> Name m i = [])
       \<and> (i < 0 \<or> LabelsCount m \<le> i \<longrightarrow> LabelsAsString m i = [])"
  using C_int_id [OF assms]
  by (auto simp add: TagsCount_def tagsCount_def native_getTagsCount_def
      NamesCount_def namesCount_def native_getNamesCount_def
      LabelsCount_def labelsCount_def native_getLabelsCount_def idResolver_def
      Tag_def tag_def native_getTag_def Name_def name_def native_getName_def
      LabelsAsString_def labelsAsString_def native_getLabelsAsString_def
      native_getString_def goStringFree_def goString_def emptyString_def)

lemma resolve_by_string_unknown:
  "(chars s \<notin> set (tagTable (dict m)) \<longrightarrow> TagID m s = - 1)
   \<and> (chars s \<notin> set (nameTable (dict m)) \<longrightarrow> NameID m s = - 1)
   \<and> (chars s \<notin> set (labelsTable (dict m)) \<longrightarrow> LabelsID m s = - 1)"
  by (simp add: TagID_def tagId_def native_getTagId_def NameID_def nameId_def
      native_getNameId_def LabelsID_def labelsId_def native_getLabelsId_def
      native_getId_def idResolver_def stdString_makeStructString invalidId_def
      index_of_None [symmetric])

text \<open>
  Claim C7. The claim says that resolving an out-of-range id through \<open>Tag\<close>, \<open>Name\<close> or
  \<open>LabelsAsString\<close> returns the empty string. The id \<open>2 ^ 32\<close> is outside
  \<open>[0, TagsCount)\<close>, but \<open>C.int(id)\<close> keeps its low 32 bits only, so the native resolver
  is asked for id 0 and \<open>Tag\<close> returns the tag of id 0; likewise \<open>2 ^ 32 + 1\<close> resolves
  as id 1 through \<open>Name\<close> and \<open>LabelsAsString\<close>.
\<close>

theorem resolve_by_id_beyond_C_int:
  "\<not> (0 \<le> (4294967296::int) \<and> 4294967296 < TagsCount example_Morfeusz)
   \<and> Tag example_Morfeusz 4294967296 = ''ign''
   \<and> Name example_Morfeusz 4294967297 = ''nazwa_pospolita''
   \<and> LabelsAsString example_Morfeusz 4294967297 = ''pot.''"
  by (simp add: TagsCount_def tagsCount_def native_getTagsCount_def idResolver_def
      Tag_def tag_def native_getTag_def Name_def name_def native_getName_def
      LabelsAsString_def labelsAsString_def native_getLabelsAsString_def
      native_getString_def C_int_def goStringFree_makeString
      example_Morfeusz_def example_dictionary_def)

section \<open>Dictionary search paths\<close>





end
